theory Spec2Isabelle
  imports Main "HOL-Library.Multiset" "HOL-Library.Sublist"
begin

section \<open>The host framework as the two scripts see it\<close>

text \<open>
  Both scripts subclass the host's \<open>QCAlgorithm\<close> and do their work by calling its
  methods. The host is not part of the sources, so every call a script makes on it is
  recorded, in order, in the field \<open>calls\<close>; what the host would do with a call
  (move the portfolio, print a line) is a function of that trace. Values the host
  hands back (the symbol of a subscription, the text of a number) are parameters of
  the script's functions.
\<close>

datatype Resolution = Tick | Second | Minute | Hour | Daily

datatype Market = GDAX

datatype OrderStatus =
  New | Submitted | PartiallyFilled | Filled | Canceled | NoStatus | Invalid
  | CancelPending | UpdateSubmitted

datatype 'sym call =
    CSetStartDate int int int
  | CSetEndDate int int int
  | CSetCash int
  | CAddCrypto string
  | CAddData string string
  | CSetUniverseSettingsResolution Resolution
  | CSetUniverseSelection string
  | CSetHoldings 'sym int
  | CDebug string
  | CLog string

record 'sym QCAlgorithm =
  calls :: "'sym call list"

definition SetStartDate ::
  "int \<Rightarrow> int \<Rightarrow> int \<Rightarrow> ('sym, 'z) QCAlgorithm_scheme \<Rightarrow> ('sym, 'z) QCAlgorithm_scheme" where
  "SetStartDate y m d self = self\<lparr>calls := calls self @ [CSetStartDate y m d]\<rparr>"

definition SetEndDate ::
  "int \<Rightarrow> int \<Rightarrow> int \<Rightarrow> ('sym, 'z) QCAlgorithm_scheme \<Rightarrow> ('sym, 'z) QCAlgorithm_scheme" where
  "SetEndDate y m d self = self\<lparr>calls := calls self @ [CSetEndDate y m d]\<rparr>"

definition SetCash ::
  "int \<Rightarrow> ('sym, 'z) QCAlgorithm_scheme \<Rightarrow> ('sym, 'z) QCAlgorithm_scheme" where
  "SetCash c self = self\<lparr>calls := calls self @ [CSetCash c]\<rparr>"

text \<open>\<open>AddCrypto(ticker).Symbol\<close>: the subscription is recorded, the symbol comes from the host.\<close>

definition AddCrypto ::
  "(string \<Rightarrow> 'sym) \<Rightarrow> string \<Rightarrow> ('sym, 'z) QCAlgorithm_scheme
     \<Rightarrow> 'sym \<times> ('sym, 'z) QCAlgorithm_scheme" where
  "AddCrypto crypto_symbol_of ticker self =
     (crypto_symbol_of ticker, self\<lparr>calls := calls self @ [CAddCrypto ticker]\<rparr>)"

text \<open>\<open>AddData(T, ticker).Symbol\<close>, with the data type \<open>T\<close> given by its name.\<close>

definition AddData ::
  "(string \<Rightarrow> string \<Rightarrow> 'sym) \<Rightarrow> string \<Rightarrow> string \<Rightarrow> ('sym, 'z) QCAlgorithm_scheme
     \<Rightarrow> 'sym \<times> ('sym, 'z) QCAlgorithm_scheme" where
  "AddData data_symbol_of ty ticker self =
     (data_symbol_of ty ticker, self\<lparr>calls := calls self @ [CAddData ty ticker]\<rparr>)"

definition SetUniverseSettingsResolution ::
  "Resolution \<Rightarrow> ('sym, 'z) QCAlgorithm_scheme \<Rightarrow> ('sym, 'z) QCAlgorithm_scheme" where
  "SetUniverseSettingsResolution r self =
     self\<lparr>calls := calls self @ [CSetUniverseSettingsResolution r]\<rparr>"

definition SetUniverseSelection ::
  "string \<Rightarrow> ('sym, 'z) QCAlgorithm_scheme \<Rightarrow> ('sym, 'z) QCAlgorithm_scheme" where
  "SetUniverseSelection model self = self\<lparr>calls := calls self @ [CSetUniverseSelection model]\<rparr>"

definition SetHoldings ::
  "'sym \<Rightarrow> int \<Rightarrow> ('sym, 'z) QCAlgorithm_scheme \<Rightarrow> ('sym, 'z) QCAlgorithm_scheme" where
  "SetHoldings symbol pct self = self\<lparr>calls := calls self @ [CSetHoldings symbol pct]\<rparr>"

definition Debug ::
  "string \<Rightarrow> ('sym, 'z) QCAlgorithm_scheme \<Rightarrow> ('sym, 'z) QCAlgorithm_scheme" where
  "Debug msg self = self\<lparr>calls := calls self @ [CDebug msg]\<rparr>"

definition Log ::
  "string \<Rightarrow> ('sym, 'z) QCAlgorithm_scheme \<Rightarrow> ('sym, 'z) QCAlgorithm_scheme" where
  "Log msg self = self\<lparr>calls := calls self @ [CLog msg]\<rparr>"

subsection \<open>The custom data type\<close>

text \<open>
  The fields of a CoinGecko data point that the scripts read. \<open>MarketCap\<close> and
  \<open>Price\<close> are numbers of a linearly ordered type \<open>'m\<close>.
\<close>

record 'm CoinGecko =
  Coin :: string
  MarketCap :: 'm
  Price :: 'm

subsection \<open>The rolling window\<close>

text \<open>
  Modelled from the spec: the host's \<open>RollingWindow\<close> class, which is not among the
  sources. The glossary describes it as a fixed-capacity buffer retaining the N most
  recent observations of a data series. \<open>Size\<close> is the capacity N; \<open>items\<close> are
  the observations retained, newest first.
\<close>

record 'a RollingWindow =
  Size :: nat
  items :: "'a list"

datatype error = IndexOutOfRange

text \<open>Modelled from the spec: the constructor \<open>RollingWindow[T](n)\<close>, an empty buffer
  of capacity \<open>n\<close>.\<close>

definition RollingWindow_new :: "nat \<Rightarrow> 'a RollingWindow" where
  "RollingWindow_new n = \<lparr>Size = n, items = []\<rparr>"

text \<open>Modelled from the spec: \<open>Add\<close> puts the new observation in front and retains the
  \<open>Size\<close> most recent ones.\<close>

definition Add :: "'a RollingWindow \<Rightarrow> 'a \<Rightarrow> 'a RollingWindow" where
  "Add w x = w\<lparr>items := take (Size w) (x # items w)\<rparr>"

text \<open>Modelled from the spec: \<open>IsReady\<close>, the buffer holds as many observations as its
  capacity.\<close>

definition IsReady :: "'a RollingWindow \<Rightarrow> bool" where
  "IsReady w = (Size w \<le> length (items w))"

text \<open>Modelled from the spec: \<open>window[i]\<close>, the \<open>i\<close>-th most recent observation,
  index 0 being the latest; reading an index the buffer does not hold is an error.\<close>

definition Index :: "'a RollingWindow \<Rightarrow> nat \<Rightarrow> error + 'a" where
  "Index w i = (if i < length (items w) then Inr (items w ! i) else Inl IndexOutOfRange)"

section \<open>CoinGeckoAlgorithm\<close>

record ('sym, 'm) CoinGeckoAlgorithm = "'sym QCAlgorithm" +
  crypto_symbol :: 'sym
  custom_data_symbol :: 'sym
  window :: "'m CoinGecko RollingWindow"

definition CoinGeckoAlgorithm_Initialize ::
  "(string \<Rightarrow> 'sym) \<Rightarrow> (string \<Rightarrow> string \<Rightarrow> 'sym) \<Rightarrow> 'sym QCAlgorithm
     \<Rightarrow> ('sym, 'm) CoinGeckoAlgorithm" where
  "CoinGeckoAlgorithm_Initialize crypto_symbol_of data_symbol_of self =
     (let self1 = SetStartDate 2018 4 4 self;
          self2 = SetEndDate 2018 4 6 self1;
          (crypto, self3) = AddCrypto crypto_symbol_of ''BTCUSD'' self2;
          (custom, self4) = AddData data_symbol_of ''CoinGecko'' ''BTC'' self3
      in \<lparr>calls = calls self4, crypto_symbol = crypto, custom_data_symbol = custom,
          window = RollingWindow_new 2\<rparr>)"

text \<open>
  A slice, as far as \<open>OnData\<close> reads it: \<open>Get\<close> is what \<open>slice.Get(CoinGecko)\<close>
  returns, a dictionary from symbols to data points, kept as an association list. It is
  true in a condition when it is not empty.
\<close>

record ('sym, 'm) Slice =
  Get :: "('sym \<times> 'm CoinGecko) list"

definition OnData ::
  "('sym, 'm::linorder) CoinGeckoAlgorithm \<Rightarrow> ('sym, 'm) Slice
     \<Rightarrow> error + ('sym, 'm) CoinGeckoAlgorithm" where
  "OnData self slice =
     (let data = Get slice in
      if data = [] then Inr self
      else case map_of data (custom_data_symbol self) of
        None \<Rightarrow> Inr self
      | Some d \<Rightarrow>
          (let self1 = self\<lparr>window := Add (window self) d\<rparr> in
           if \<not> IsReady (window self1) then Inr self1
           else case Index (window self1) 0 of
             Inl e \<Rightarrow> Inl e
           | Inr w0 \<Rightarrow>
               (case Index (window self1) 1 of
                  Inl e \<Rightarrow> Inl e
                | Inr w1 \<Rightarrow>
                    if MarketCap w0 > MarketCap w1
                    then Inr (SetHoldings (crypto_symbol self1) 1 self1)
                    else Inr (SetHoldings (crypto_symbol self1) (- 1) self1))))"

record 'sym OrderEvent =
  Status :: OrderStatus
  Symbol :: 'sym

definition OnOrderEvent ::
  "('sym \<Rightarrow> string) \<Rightarrow> ('sym, 'z) QCAlgorithm_scheme \<Rightarrow> 'sym OrderEvent
     \<Rightarrow> ('sym, 'z) QCAlgorithm_scheme" where
  "OnOrderEvent str_symbol self orderEvent =
     (if Status orderEvent = Filled
      then Debug (''Purchased Stock: '' @ str_symbol (Symbol orderEvent)) self
      else self)"

section \<open>CoinGeckoUniverseSelectionModelAlgorithm\<close>

definition CoinGeckoUniverseSelectionModelAlgorithm_Initialize ::
  "('sym, 'z) QCAlgorithm_scheme \<Rightarrow> ('sym, 'z) QCAlgorithm_scheme" where
  "CoinGeckoUniverseSelectionModelAlgorithm_Initialize self =
     (let self1 = SetUniverseSettingsResolution Daily self;
          self2 = SetStartDate 2018 4 4 self1;
          self3 = SetEndDate 2018 4 6 self2;
          self4 = SetCash 100000 self3
      in SetUniverseSelection ''CoinGeckoUniverseSelectionModel'' self4)"

text \<open>
  Python's \<open>sorted(xs, key=..., reverse=...)\<close>: a stable sort, and with
  \<open>reverse=True\<close> still one that keeps entries of equal key in their original order
  (the list is reversed, sorted stably in ascending order and reversed again).
\<close>

definition sorted_py :: "('a \<Rightarrow> 'k::linorder) \<Rightarrow> bool \<Rightarrow> 'a list \<Rightarrow> 'a list" where
  "sorted_py key reverse xs =
     (if reverse then rev (sort_key key (rev xs)) else sort_key key xs)"

text \<open>The loop that logs one line for each datum.\<close>

fun log_data ::
  "('m \<Rightarrow> string) \<Rightarrow> 'm CoinGecko list \<Rightarrow> ('sym, 'z) QCAlgorithm_scheme
     \<Rightarrow> ('sym, 'z) QCAlgorithm_scheme" where
  "log_data str_num [] self = self"
| "log_data str_num (datum # data) self =
     log_data str_num data
       (Log (Coin datum @ '','' @ str_num (MarketCap datum) @ '','' @ str_num (Price datum)) self)"

definition UniverseSelection ::
  "('m::linorder \<Rightarrow> string) \<Rightarrow> ('m CoinGecko \<Rightarrow> Market \<Rightarrow> string \<Rightarrow> 'sym)
     \<Rightarrow> ('sym, 'z) QCAlgorithm_scheme \<Rightarrow> 'm CoinGecko list
     \<Rightarrow> 'sym list \<times> ('sym, 'z) QCAlgorithm_scheme" where
  "UniverseSelection str_num CreateSymbol self data =
     (let self1 = log_data str_num data self;
          selected = take 3 (sorted_py MarketCap True data)
      in (map (\<lambda>x. CreateSymbol x GDAX ''USD'') selected, self1))"

definition OnSecuritiesChanged ::
  "('c \<Rightarrow> string) \<Rightarrow> ('sym, 'z) QCAlgorithm_scheme \<Rightarrow> 'c \<Rightarrow> ('sym, 'z) QCAlgorithm_scheme" where
  "OnSecuritiesChanged str_changes self changes = Log (str_changes changes) self"

section \<open>Reading the trace of host calls\<close>

text \<open>The calls that subscribe the algorithm to a data feed or a universe.\<close>

fun is_subscription :: "'sym call \<Rightarrow> bool" where
  "is_subscription (CAddCrypto _) = True"
| "is_subscription (CAddData _ _) = True"
| "is_subscription (CSetUniverseSelection _) = True"
| "is_subscription _ = False"

fun is_SetStartDate :: "'sym call \<Rightarrow> bool" where
  "is_SetStartDate (CSetStartDate _ _ _) = True"
| "is_SetStartDate _ = False"

fun is_SetEndDate :: "'sym call \<Rightarrow> bool" where
  "is_SetEndDate (CSetEndDate _ _ _) = True"
| "is_SetEndDate _ = False"

fun is_SetCash :: "'sym call \<Rightarrow> bool" where
  "is_SetCash (CSetCash _) = True"
| "is_SetCash _ = False"

text \<open>A trace declares a start date, an end date and an initial cash amount.\<close>

definition declares_dates_and_cash :: "'sym call list \<Rightarrow> bool" where
  "declares_dates_and_cash cs =
     (list_ex is_SetStartDate cs \<and> list_ex is_SetEndDate cs \<and> list_ex is_SetCash cs)"

section \<open>The host's event loop\<close>

text \<open>
  The host calls \<open>OnData\<close> once for each slice, in order; an exception ends the run.
  \<open>observations\<close> lists the data points the slices carry for a symbol.
\<close>

fun OnData_all ::
  "('sym, 'm::linorder) CoinGeckoAlgorithm \<Rightarrow> ('sym, 'm) Slice list
     \<Rightarrow> error + ('sym, 'm) CoinGeckoAlgorithm" where
  "OnData_all self [] = Inr self"
| "OnData_all self (slice # slices) =
     (case OnData self slice of Inl e \<Rightarrow> Inl e | Inr self' \<Rightarrow> OnData_all self' slices)"

definition observations :: "'sym \<Rightarrow> ('sym, 'm) Slice list \<Rightarrow> 'm CoinGecko list" where
  "observations symbol slices = List.map_filter (\<lambda>slice. map_of (Get slice) symbol) slices"

section \<open>A sample host, for the concrete instances\<close>

definition ticker_symbol :: "string \<Rightarrow> string" where
  "ticker_symbol ticker = ticker"

definition data_symbol :: "string \<Rightarrow> string \<Rightarrow> string" where
  "data_symbol ty ticker = ticker @ ''.'' @ ty"

definition coin_symbol :: "'m CoinGecko \<Rightarrow> Market \<Rightarrow> string \<Rightarrow> string" where
  "coin_symbol x market quote = Coin x @ quote"

definition sign_text :: "int \<Rightarrow> string" where
  "sign_text n = (if n < 0 then ''-'' else ''+'')"

section \<open>Auxiliary facts\<close>

lemma Initialize_calls:
  "calls (CoinGeckoAlgorithm_Initialize c1 c2 self) =
     calls self @ [CSetStartDate 2018 4 4, CSetEndDate 2018 4 6, CAddCrypto ''BTCUSD'',
                   CAddData ''CoinGecko'' ''BTC'']"
  by (simp add: CoinGeckoAlgorithm_Initialize_def Let_def SetStartDate_def SetEndDate_def
      AddCrypto_def AddData_def)

lemma Initialize_window:
  "window (CoinGeckoAlgorithm_Initialize c1 c2 self) = \<lparr>Size = 2, items = []\<rparr>"
  by (simp add: CoinGeckoAlgorithm_Initialize_def Let_def AddCrypto_def AddData_def
      RollingWindow_new_def)

lemma Initialize_symbols:
  "crypto_symbol (CoinGeckoAlgorithm_Initialize c1 c2 self) = c1 ''BTCUSD''"
  "custom_data_symbol (CoinGeckoAlgorithm_Initialize c1 c2 self) = c2 ''CoinGecko'' ''BTC''"
  by (simp_all add: CoinGeckoAlgorithm_Initialize_def Let_def AddCrypto_def AddData_def)

lemma Universe_Initialize_calls:
  "calls (CoinGeckoUniverseSelectionModelAlgorithm_Initialize self) =
     calls self @ [CSetUniverseSettingsResolution Daily, CSetStartDate 2018 4 4,
                   CSetEndDate 2018 4 6, CSetCash 100000,
                   CSetUniverseSelection ''CoinGeckoUniverseSelectionModel'']"
  by (simp add: CoinGeckoUniverseSelectionModelAlgorithm_Initialize_def Let_def
      SetUniverseSettingsResolution_def SetStartDate_def SetEndDate_def SetCash_def
      SetUniverseSelection_def)

lemma Add_Size [simp]: "Size (Add w x) = Size w"
  by (simp add: Add_def)

lemma Add_items: "items (Add w x) = take (Size w) (x # items w)"
  by (simp add: Add_def)

lemma foldl_Add_Size: "Size (foldl Add w xs) = Size w"
  by (induction xs arbitrary: w) simp_all

lemma foldl_Add_items:
  "length (items w) \<le> Size w \<Longrightarrow> items (foldl Add w xs) = take (Size w) (rev xs @ items w)"
proof (induction xs arbitrary: w)
  case Nil
  then show ?case by simp
next
  case (Cons x xs)
  have "length (items (Add w x)) \<le> Size (Add w x)"
    by (simp add: Add_items)
  from Cons.IH [OF this]
  have "items (foldl Add (Add w x) xs) = take (Size w) (rev xs @ take (Size w) (x # items w))"
    by (simp add: Add_items)
  also have "\<dots> = take (Size w) (rev xs @ x # items w)"
    by (simp add: min_def take_Cons')
  finally show ?case by simp
qed

lemma OnData_step:
  assumes "Size (window self) = 2"
  shows "\<exists>self'. OnData self slice = Inr self' \<and>
           window self' = (case map_of (Get slice) (custom_data_symbol self) of
                             None \<Rightarrow> window self | Some d \<Rightarrow> Add (window self) d) \<and>
           custom_data_symbol self' = custom_data_symbol self \<and>
           crypto_symbol self' = crypto_symbol self \<and>
           (\<not> IsReady (window self') \<longrightarrow> calls self' = calls self)"
proof (cases "map_of (Get slice) (custom_data_symbol self)")
  case None
  then show ?thesis by (simp add: OnData_def Let_def)
next
  case (Some d)
  then have ne: "Get slice \<noteq> []" by auto
  show ?thesis
  proof (cases "items (window self)")
    case Nil
    then show ?thesis using assms Some ne
      by (simp add: OnData_def Let_def IsReady_def Add_def)
  next
    case (Cons p rest)
    then show ?thesis using assms Some ne
      by (simp add: OnData_def Let_def IsReady_def Add_def Index_def SetHoldings_def
          numeral_2_eq_2)
  qed
qed

lemma observations_Cons:
  "observations symbol (slice # slices) =
     (case map_of (Get slice) symbol of None \<Rightarrow> observations symbol slices
      | Some d \<Rightarrow> d # observations symbol slices)"
  by (simp add: observations_def split: option.splits)

lemma observations_Nil [simp]: "observations symbol [] = []"
  by (simp add: observations_def)

lemma OnData_all_run:
  assumes "Size (window self) = 2"
  shows "\<exists>self'. OnData_all self slices = Inr self' \<and>
           window self' = foldl Add (window self) (observations (custom_data_symbol self) slices) \<and>
           (length (items (window self)) + length (observations (custom_data_symbol self) slices) < 2
              \<longrightarrow> calls self' = calls self)"
  using assms
proof (induction slices arbitrary: self)
  case Nil
  then show ?case by simp
next
  case (Cons slice slices)
  from OnData_step [OF Cons.prems, of slice] obtain self1 where
    s1: "OnData self slice = Inr self1"
    and w1: "window self1 = (case map_of (Get slice) (custom_data_symbol self) of
                             None \<Rightarrow> window self | Some d \<Rightarrow> Add (window self) d)"
    and c1: "custom_data_symbol self1 = custom_data_symbol self"
    and r1: "\<not> IsReady (window self1) \<longrightarrow> calls self1 = calls self"
    by blast
  have sz1: "Size (window self1) = 2"
    using w1 Cons.prems by (simp split: option.splits)
  from Cons.IH [OF sz1] obtain self' where
    s2: "OnData_all self1 slices = Inr self'"
    and w2: "window self' = foldl Add (window self1) (observations (custom_data_symbol self1) slices)"
    and r2: "length (items (window self1)) + length (observations (custom_data_symbol self1) slices) < 2
              \<longrightarrow> calls self' = calls self1"
    by blast
  have a: "OnData_all self (slice # slices) = Inr self'"
    using s1 s2 by simp
  have b: "window self' = foldl Add (window self) (observations (custom_data_symbol self) (slice # slices))"
    using w2 w1 c1 by (simp add: observations_Cons split: option.splits)
  have c: "calls self' = calls self"
    if lt: "length (items (window self)) + length (observations (custom_data_symbol self) (slice # slices)) < 2"
  proof -
    have l1: "length (items (window self1)) + length (observations (custom_data_symbol self1) slices) < 2"
      using lt w1 c1 Cons.prems by (auto simp: observations_Cons Add_items split: option.splits)
    then have "\<not> IsReady (window self1)"
      using sz1 by (simp add: IsReady_def)
    with r1 r2 l1 show ?thesis by simp
  qed
  from a b c show ?case by blast
qed

lemma rev_last_butlast: "xs \<noteq> [] \<Longrightarrow> rev xs = last xs # rev (butlast xs)"
  by (cases xs rule: rev_cases) simp_all

lemma OnData_compare:
  assumes "map_of (Get slice) (custom_data_symbol self) = Some d"
    and "Size (window self) = 2"
    and "items (window self) = p # rest"
  shows "OnData self slice =
           Inr (SetHoldings (crypto_symbol self) (if MarketCap p < MarketCap d then 1 else - 1)
                  (self\<lparr>window := \<lparr>Size = 2, items = [d, p]\<rparr>\<rparr>))"
proof -
  from assms(1) have ne: "Get slice \<noteq> []" by auto
  have w: "Add (window self) d = \<lparr>Size = 2, items = [d, p]\<rparr>"
    using assms(2,3) by (simp add: Add_def numeral_2_eq_2)
  show ?thesis
    using ne assms(1) w by (simp add: OnData_def Let_def IsReady_def Index_def)
qed

lemma OnData_symbols:
  assumes "OnData self slice = Inr self'"
  shows "custom_data_symbol self' = custom_data_symbol self \<and>
         crypto_symbol self' = crypto_symbol self"
proof (cases "map_of (Get slice) (custom_data_symbol self)")
  case None
  then have "OnData self slice = Inr self" by (simp add: OnData_def Let_def)
  with assms show ?thesis by simp
next
  case (Some d)
  then have ne: "Get slice \<noteq> []" by auto
  let ?s1 = "self\<lparr>window := Add (window self) d\<rparr>"
  have "self' = ?s1 \<or> self' = SetHoldings (crypto_symbol ?s1) 1 ?s1
          \<or> self' = SetHoldings (crypto_symbol ?s1) (- 1) ?s1"
    using assms Some ne
    by (simp add: OnData_def Let_def split: if_splits sum.splits)
  then show ?thesis
    by (auto simp: SetHoldings_def)
qed

lemma OnData_all_symbols:
  assumes "OnData_all self slices = Inr self'"
  shows "custom_data_symbol self' = custom_data_symbol self \<and>
         crypto_symbol self' = crypto_symbol self"
  using assms
proof (induction slices arbitrary: self)
  case Nil
  then show ?case by simp
next
  case (Cons slice slices)
  then obtain self1 where s1: "OnData self slice = Inr self1"
    and s2: "OnData_all self1 slices = Inr self'"
    by (cases "OnData self slice") simp_all
  from OnData_symbols [OF s1] Cons.IH [OF s2] show ?case by simp
qed

subsection \<open>The stable descending sort\<close>

lemma sorted_py_mset: "mset (sorted_py key reverse xs) = mset xs"
  by (simp add: sorted_py_def)

lemma sorted_py_set: "set (sorted_py key reverse xs) = set xs"
  by (simp add: sorted_py_def)

lemma sorted_py_length: "length (sorted_py key reverse xs) = length xs"
  by (simp add: sorted_py_def)

lemma sorted_py_descending:
  "sorted_wrt (\<lambda>x y. key y \<le> key x) (sorted_py key True xs)"
proof -
  have "sorted_wrt (\<lambda>x y. key x \<le> key y) (sort_key key (rev xs))"
    using sorted_sort_key [of key "rev xs"] by (simp only: sorted_map)
  then show ?thesis
    by (simp add: sorted_py_def sorted_wrt_rev)
qed

lemma sorted_py_stable:
  "filter (\<lambda>x. key x = k) (sorted_py key reverse xs) = filter (\<lambda>x. key x = k) xs"
proof (cases reverse)
  case True
  have "filter (\<lambda>x. key x = k) (rev (sort_key key (rev xs)))
          = rev (filter (\<lambda>x. key x = k) (sort_key key (rev xs)))"
    by (simp add: rev_filter)
  also have "\<dots> = rev (filter (\<lambda>x. key x = k) (rev xs))"
    by (simp only: sort_key_stable)
  also have "\<dots> = filter (\<lambda>x. key x = k) xs"
    by (simp add: rev_filter)
  finally show ?thesis using True by (simp add: sorted_py_def)
next
  case False
  then show ?thesis by (simp add: sorted_py_def sort_key_stable)
qed

lemma sorted_py_unique:
  assumes m: "mset ys = mset xs"
    and s: "sorted_wrt (\<lambda>x y. key y \<le> key x) ys"
    and f: "\<forall>k. filter (\<lambda>x. key x = k) ys = filter (\<lambda>x. key x = k) xs"
  shows "sorted_py key True xs = ys"
proof -
  have "sort_key key (rev xs) = rev ys"
  proof (rule properties_for_sort_key)
    show "mset (rev ys) = mset (rev xs)" using m by simp
  next
    fix k
    have "filter (\<lambda>x. key x = key k) (rev ys) = filter (\<lambda>x. key x = key k) (rev xs)"
      using f by (simp add: rev_filter [symmetric])
    then show "filter (\<lambda>x. key k = key x) (rev ys) = filter (\<lambda>x. key k = key x) (rev xs)"
      by (simp add: eq_commute)
  next
    show "sorted (map key (rev ys))"
      using s by (simp add: sorted_map sorted_wrt_rev del: rev_map)
  qed
  then show ?thesis by (simp add: sorted_py_def)
qed

lemma UniverseSelection_result:
  "fst (UniverseSelection str_num CreateSymbol self data) =
     map (\<lambda>x. CreateSymbol x GDAX ''USD'') (take 3 (sorted_py MarketCap True data))"
  by (simp add: UniverseSelection_def Let_def)

lemma insort_key_cong_order:
  assumes "\<forall>q\<in>set zs. (k1 p \<le> k1 q) = (k2 p \<le> k2 q)"
  shows "insort_key k1 p zs = insort_key k2 p zs"
  using assms by (induction zs) simp_all

lemma sort_key_cong_order:
  assumes "\<forall>p\<in>set ps. \<forall>q\<in>set ps. (k1 p \<le> k1 q) = (k2 p \<le> k2 q)"
  shows "sort_key k1 ps = sort_key k2 ps"
  using assms
proof (induction ps)
  case Nil
  then show ?case by simp
next
  case (Cons p ps)
  then have ih: "sort_key k1 ps = sort_key k2 ps" by simp
  have "\<forall>q\<in>set (sort_key k2 ps). (k1 p \<le> k1 q) = (k2 p \<le> k2 q)"
    using Cons.prems by simp
  then have "insort_key k1 p (sort_key k2 ps) = insort_key k2 p (sort_key k2 ps)"
    by (rule insort_key_cong_order)
  with ih show ?case by simp
qed

lemma map_insort_key:
  "map h (insort_key (\<lambda>p. f (h p)) p zs) = insort_key f (h p) (map h zs)"
  by (induction zs) simp_all

lemma map_sort_key:
  "map h (sort_key (\<lambda>p. f (h p)) ps) = sort_key f (map h ps)"
  by (induction ps) (simp_all add: map_insort_key)

lemma sorted_py_cong_order:
  assumes "\<forall>p\<in>set ps. \<forall>q\<in>set ps. (k1 p \<le> k1 q) = (k2 p \<le> k2 q)"
  shows "sorted_py k1 reverse ps = sorted_py k2 reverse ps"
proof -
  have "sort_key k1 ps = sort_key k2 ps"
    using assms by (rule sort_key_cong_order)
  moreover have "sort_key k1 (rev ps) = sort_key k2 (rev ps)"
    using assms by (intro sort_key_cong_order) simp
  ultimately show ?thesis by (simp add: sorted_py_def)
qed

lemma map_sorted_py:
  "map h (sorted_py (\<lambda>p. f (h p)) reverse ps) = sorted_py f reverse (map h ps)"
  by (simp add: sorted_py_def rev_map [symmetric] map_sort_key del: rev_map)

section \<open>The claims about CoinGeckoAlgorithm and the two Initialize methods\<close>

text \<open>
  Claim C1. When the slice carries a CoinGecko data point \<open>d\<close> for the custom data
  symbol and the window of capacity 2 already holds a previous observation \<open>p\<close> as
  its newest entry, so that with \<open>d\<close> added it holds two observations, \<open>OnData\<close>
  calls \<open>SetHoldings(crypto_symbol, 1)\<close> if the market cap of \<open>d\<close> is strictly
  greater than that of \<open>p\<close>, and \<open>SetHoldings(crypto_symbol, -1)\<close> otherwise,
  equal market caps included. The window afterwards holds \<open>d\<close> and \<open>p\<close>.
\<close>

theorem OnData_trend_comparison:
  assumes "map_of (Get slice) (custom_data_symbol self) = Some d"
    and "Size (window self) = 2"
    and "items (window self) = p # rest"
  shows "OnData self slice =
           Inr (SetHoldings (crypto_symbol self) (if MarketCap p < MarketCap d then 1 else - 1)
                  (self\<lparr>window := \<lparr>Size = 2, items = [d, p]\<rparr>\<rparr>))"
proof -
  from assms(1) have ne: "Get slice \<noteq> []" by auto
  have w: "Add (window self) d = \<lparr>Size = 2, items = [d, p]\<rparr>"
    using assms(2,3) by (simp add: Add_def numeral_2_eq_2)
  show ?thesis
    using ne assms(1) w by (simp add: OnData_def Let_def IsReady_def Index_def)
qed

theorem OnData_trend_comparison_witness:
  "OnData \<lparr>calls = [], crypto_symbol = ''BTCUSD'', custom_data_symbol = ''BTC.CoinGecko'',
            window = \<lparr>Size = 2, items = [\<lparr>Coin = ''BTC'', MarketCap = 5 :: int, Price = 1\<rparr>]\<rparr>\<rparr>
          \<lparr>Get = [(''BTC.CoinGecko'', \<lparr>Coin = ''BTC'', MarketCap = 7, Price = 1\<rparr>)]\<rparr>
     = Inr \<lparr>calls = [CSetHoldings ''BTCUSD'' 1], crypto_symbol = ''BTCUSD'',
            custom_data_symbol = ''BTC.CoinGecko'',
            window = \<lparr>Size = 2, items = [\<lparr>Coin = ''BTC'', MarketCap = 7, Price = 1\<rparr>,
                                          \<lparr>Coin = ''BTC'', MarketCap = 5, Price = 1\<rparr>]\<rparr>\<rparr>
   \<and> OnData \<lparr>calls = [], crypto_symbol = ''BTCUSD'', custom_data_symbol = ''BTC.CoinGecko'',
            window = \<lparr>Size = 2, items = [\<lparr>Coin = ''BTC'', MarketCap = 5 :: int, Price = 1\<rparr>,
                                          \<lparr>Coin = ''BTC'', MarketCap = 9, Price = 1\<rparr>]\<rparr>\<rparr>
          \<lparr>Get = [(''BTC.CoinGecko'', \<lparr>Coin = ''BTC'', MarketCap = 5, Price = 2\<rparr>)]\<rparr>
     = Inr \<lparr>calls = [CSetHoldings ''BTCUSD'' (- 1)], crypto_symbol = ''BTCUSD'',
            custom_data_symbol = ''BTC.CoinGecko'',
            window = \<lparr>Size = 2, items = [\<lparr>Coin = ''BTC'', MarketCap = 5, Price = 2\<rparr>,
                                          \<lparr>Coin = ''BTC'', MarketCap = 5, Price = 1\<rparr>]\<rparr>\<rparr>"
  using OnData_trend_comparison
          [of "\<lparr>Get = [(''BTC.CoinGecko'', \<lparr>Coin = ''BTC'', MarketCap = 7 :: int, Price = 1\<rparr>)]\<rparr>"
              "\<lparr>calls = [], crypto_symbol = ''BTCUSD'', custom_data_symbol = ''BTC.CoinGecko'',
                window = \<lparr>Size = 2, items = [\<lparr>Coin = ''BTC'', MarketCap = 5, Price = 1\<rparr>]\<rparr>\<rparr>"
              "\<lparr>Coin = ''BTC'', MarketCap = 7, Price = 1\<rparr>"
              "\<lparr>Coin = ''BTC'', MarketCap = 5, Price = 1\<rparr>" "[]"]
        OnData_trend_comparison
          [of "\<lparr>Get = [(''BTC.CoinGecko'', \<lparr>Coin = ''BTC'', MarketCap = 5 :: int, Price = 2\<rparr>)]\<rparr>"
              "\<lparr>calls = [], crypto_symbol = ''BTCUSD'', custom_data_symbol = ''BTC.CoinGecko'',
                window = \<lparr>Size = 2, items = [\<lparr>Coin = ''BTC'', MarketCap = 5, Price = 1\<rparr>,
                                              \<lparr>Coin = ''BTC'', MarketCap = 9, Price = 1\<rparr>]\<rparr>\<rparr>"
              "\<lparr>Coin = ''BTC'', MarketCap = 5, Price = 2\<rparr>"
              "\<lparr>Coin = ''BTC'', MarketCap = 5, Price = 1\<rparr>"
              "[\<lparr>Coin = ''BTC'', MarketCap = 9, Price = 1\<rparr>]"]
  by (simp add: SetHoldings_def)

text \<open>
  Claim C9. If the slice contains no CoinGecko data, or contains CoinGecko data but no
  entry for the custom data symbol, \<open>OnData\<close> returns the algorithm as it was: the
  rolling window and the trace of host calls, hence the portfolio holding, are unchanged.
\<close>

theorem OnData_without_data_unchanged:
  assumes "Get slice = [] \<or> map_of (Get slice) (custom_data_symbol self) = None"
  shows "OnData self slice = Inr self"
  using assms by (auto simp: OnData_def Let_def)

theorem OnData_without_data_unchanged_witness:
  "OnData \<lparr>calls = [], crypto_symbol = ''BTCUSD'', custom_data_symbol = ''BTC.CoinGecko'',
            window = \<lparr>Size = 2, items = [\<lparr>Coin = ''BTC'', MarketCap = 5 :: int, Price = 1\<rparr>]\<rparr>\<rparr>
          \<lparr>Get = []\<rparr>
     = Inr \<lparr>calls = [], crypto_symbol = ''BTCUSD'', custom_data_symbol = ''BTC.CoinGecko'',
            window = \<lparr>Size = 2, items = [\<lparr>Coin = ''BTC'', MarketCap = 5, Price = 1\<rparr>]\<rparr>\<rparr>
   \<and> OnData \<lparr>calls = [], crypto_symbol = ''BTCUSD'', custom_data_symbol = ''BTC.CoinGecko'',
            window = \<lparr>Size = 2, items = [\<lparr>Coin = ''BTC'', MarketCap = 5 :: int, Price = 1\<rparr>]\<rparr>\<rparr>
          \<lparr>Get = [(''ETH.CoinGecko'', \<lparr>Coin = ''ETH'', MarketCap = 3, Price = 1\<rparr>)]\<rparr>
     = Inr \<lparr>calls = [], crypto_symbol = ''BTCUSD'', custom_data_symbol = ''BTC.CoinGecko'',
            window = \<lparr>Size = 2, items = [\<lparr>Coin = ''BTC'', MarketCap = 5, Price = 1\<rparr>]\<rparr>\<rparr>"
  using OnData_without_data_unchanged
          [of "\<lparr>Get = []\<rparr>"
              "\<lparr>calls = [], crypto_symbol = ''BTCUSD'', custom_data_symbol = ''BTC.CoinGecko'',
                window = \<lparr>Size = 2, items = [\<lparr>Coin = ''BTC'', MarketCap = 5 :: int, Price = 1\<rparr>]\<rparr>\<rparr>"]
        OnData_without_data_unchanged
          [of "\<lparr>Get = [(''ETH.CoinGecko'', \<lparr>Coin = ''ETH'', MarketCap = 3 :: int, Price = 1\<rparr>)]\<rparr>"
              "\<lparr>calls = [], crypto_symbol = ''BTCUSD'', custom_data_symbol = ''BTC.CoinGecko'',
                window = \<lparr>Size = 2, items = [\<lparr>Coin = ''BTC'', MarketCap = 5 :: int, Price = 1\<rparr>]\<rparr>\<rparr>"]
  by simp

text \<open>
  Claim C5. While the window is not ready, \<open>OnData\<close> calls nothing on the host. A
  call on an algorithm whose window has capacity 2 returns normally, and if the window is
  not ready once the call has added its observation, the trace of host calls is the one
  from before the call. Over a run from \<open>Initialize\<close>: as long as fewer than two of
  the slices carried an observation for the custom data symbol, every call has returned
  and the trace is still the one \<open>Initialize\<close> left, with no \<open>SetHoldings\<close> in it.
\<close>

theorem OnData_not_ready_no_SetHoldings:
  fixes self :: "('sym, 'm::linorder) CoinGeckoAlgorithm"
    and slices :: "('sym, 'm) Slice list"
  shows
  "(Size (window self) = 2 \<longrightarrow>
      (\<exists>self'. OnData self slice = Inr self' \<and>
         (\<not> IsReady (window self') \<longrightarrow> calls self' = calls self))) \<and>
   (length (observations (c2 ''CoinGecko'' ''BTC'') slices) < 2 \<longrightarrow>
      (\<exists>self'. OnData_all (CoinGeckoAlgorithm_Initialize c1 c2 self0) slices = Inr self' \<and>
         calls self' =
           calls (CoinGeckoAlgorithm_Initialize c1 c2 self0 :: ('sym, 'm) CoinGeckoAlgorithm)))"
proof (intro conjI impI)
  assume "Size (window self) = 2"
  from OnData_step [OF this, of slice]
  show "\<exists>self'. OnData self slice = Inr self' \<and>
         (\<not> IsReady (window self') \<longrightarrow> calls self' = calls self)"
    by blast
next
  let ?init = "CoinGeckoAlgorithm_Initialize c1 c2 self0 :: ('sym, 'm) CoinGeckoAlgorithm"
  assume lt: "length (observations (c2 ''CoinGecko'' ''BTC'') slices) < 2"
  have sz: "Size (window ?init) = 2"
    by (simp add: Initialize_window)
  from OnData_all_run [OF sz, of slices] lt
  show "\<exists>self'. OnData_all ?init slices = Inr self' \<and> calls self' = calls ?init"
    by (auto simp: Initialize_window Initialize_symbols)
qed

theorem OnData_not_ready_no_SetHoldings_witness:
  "(\<exists>self'. OnData \<lparr>calls = [], crypto_symbol = ''BTCUSD'', custom_data_symbol = ''BTC.CoinGecko'',
                     window = \<lparr>Size = 2, items = []\<rparr>\<rparr>
                   \<lparr>Get = [(''BTC.CoinGecko'', \<lparr>Coin = ''BTC'', MarketCap = 7 :: int, Price = 1\<rparr>)]\<rparr>
               = Inr self' \<and> \<not> IsReady (window self') \<and> calls self' = []) \<and>
   (\<exists>self'. OnData_all (CoinGeckoAlgorithm_Initialize ticker_symbol data_symbol \<lparr>calls = []\<rparr>)
               [\<lparr>Get = []\<rparr>,
                \<lparr>Get = [(''BTC.CoinGecko'', \<lparr>Coin = ''BTC'', MarketCap = 7 :: int, Price = 1\<rparr>)]\<rparr>,
                \<lparr>Get = [(''ETH.CoinGecko'', \<lparr>Coin = ''ETH'', MarketCap = 3, Price = 1\<rparr>)]\<rparr>]
               = Inr self' \<and>
             calls self' = [CSetStartDate 2018 4 4, CSetEndDate 2018 4 6, CAddCrypto ''BTCUSD'',
                            CAddData ''CoinGecko'' ''BTC''])"
  using OnData_not_ready_no_SetHoldings
          [of "\<lparr>calls = [], crypto_symbol = ''BTCUSD'', custom_data_symbol = ''BTC.CoinGecko'',
                window = \<lparr>Size = 2, items = []\<rparr>\<rparr>"
              "\<lparr>Get = [(''BTC.CoinGecko'', \<lparr>Coin = ''BTC'', MarketCap = 7 :: int, Price = 1\<rparr>)]\<rparr>"
              data_symbol
              "[\<lparr>Get = []\<rparr>,
                \<lparr>Get = [(''BTC.CoinGecko'', \<lparr>Coin = ''BTC'', MarketCap = 7 :: int, Price = 1\<rparr>)]\<rparr>,
                \<lparr>Get = [(''ETH.CoinGecko'', \<lparr>Coin = ''ETH'', MarketCap = 3, Price = 1\<rparr>)]\<rparr>]"
              ticker_symbol "\<lparr>calls = []\<rparr>"]
  by (simp add: OnData_def Let_def Add_def IsReady_def observations_def data_symbol_def
      Initialize_calls)

text \<open>
  Claim C6. \<open>OnOrderEvent\<close> emits one debug message when the status of the order
  event is \<open>Filled\<close>, and leaves the algorithm untouched, with no output, for every
  other status.
\<close>

theorem OnOrderEvent_debug_iff_filled:
  "(Status orderEvent = Filled \<longrightarrow>
      calls (OnOrderEvent str_symbol self orderEvent) =
        calls self @ [CDebug (''Purchased Stock: '' @ str_symbol (Symbol orderEvent))]) \<and>
   (Status orderEvent \<noteq> Filled \<longrightarrow> OnOrderEvent str_symbol self orderEvent = self)"
  by (simp add: OnOrderEvent_def Debug_def)

theorem OnOrderEvent_debug_iff_filled_witness:
  "calls (OnOrderEvent ticker_symbol \<lparr>calls = []\<rparr> \<lparr>Status = Filled, Symbol = ''BTCUSD''\<rparr>)
     = [CDebug ''Purchased Stock: BTCUSD''] \<and>
   OnOrderEvent ticker_symbol \<lparr>calls = []\<rparr> \<lparr>Status = Canceled, Symbol = ''BTCUSD''\<rparr>
     = \<lparr>calls = []\<rparr>"
  using OnOrderEvent_debug_iff_filled
          [of "\<lparr>Status = Filled, Symbol = ''BTCUSD''\<rparr>" ticker_symbol "\<lparr>calls = []\<rparr>"]
        OnOrderEvent_debug_iff_filled
          [of "\<lparr>Status = Canceled, Symbol = ''BTCUSD''\<rparr>" ticker_symbol "\<lparr>calls = []\<rparr>"]
  by (simp add: ticker_symbol_def)

text \<open>
  Claim C8. The subscriptions \<open>Initialize\<close> of \<open>CoinGeckoAlgorithm\<close> adds are
  exactly two, the BTCUSD crypto feed and the CoinGecko custom data feed for BTC, in this
  order; \<open>Initialize\<close> of \<open>CoinGeckoUniverseSelectionModelAlgorithm\<close> adds exactly
  one, the custom universe selection model.
\<close>

theorem Initialize_subscriptions:
  "filter is_subscription (calls (CoinGeckoAlgorithm_Initialize c1 c2 self)) =
     filter is_subscription (calls self) @ [CAddCrypto ''BTCUSD'', CAddData ''CoinGecko'' ''BTC''] \<and>
   filter is_subscription (calls (CoinGeckoUniverseSelectionModelAlgorithm_Initialize self')) =
     filter is_subscription (calls self') @ [CSetUniverseSelection ''CoinGeckoUniverseSelectionModel'']"
  by (simp add: Initialize_calls Universe_Initialize_calls)

text \<open>
  Claim C3, as stated, fails for \<open>CoinGeckoAlgorithm\<close>: on a fresh algorithm its
  \<open>Initialize\<close> declares the two dates but never calls \<open>SetCash\<close>.
\<close>

theorem CoinGeckoAlgorithm_declares_no_cash:
  "\<not> declares_dates_and_cash
       (calls (CoinGeckoAlgorithm_Initialize ticker_symbol data_symbol \<lparr>calls = []\<rparr>
                 :: (string, int) CoinGeckoAlgorithm))"
  by (simp add: Initialize_calls declares_dates_and_cash_def)

text \<open>
  Claim C3, amended. Each script declares a start date (2018-04-04) and an end date
  (2018-04-06) in \<open>Initialize\<close>. Only \<open>CoinGeckoUniverseSelectionModelAlgorithm\<close>
  declares an initial cash amount, 100000; \<open>CoinGeckoAlgorithm\<close> makes no
  \<open>SetCash\<close> call and leaves the cash as the host set it up.
\<close>

theorem Initialize_declarations:
  "filter is_SetStartDate (calls (CoinGeckoAlgorithm_Initialize c1 c2 self)) =
     filter is_SetStartDate (calls self) @ [CSetStartDate 2018 4 4] \<and>
   filter is_SetEndDate (calls (CoinGeckoAlgorithm_Initialize c1 c2 self)) =
     filter is_SetEndDate (calls self) @ [CSetEndDate 2018 4 6] \<and>
   filter is_SetCash (calls (CoinGeckoAlgorithm_Initialize c1 c2 self)) =
     filter is_SetCash (calls self) \<and>
   filter is_SetStartDate (calls (CoinGeckoUniverseSelectionModelAlgorithm_Initialize self')) =
     filter is_SetStartDate (calls self') @ [CSetStartDate 2018 4 4] \<and>
   filter is_SetEndDate (calls (CoinGeckoUniverseSelectionModelAlgorithm_Initialize self')) =
     filter is_SetEndDate (calls self') @ [CSetEndDate 2018 4 6] \<and>
   filter is_SetCash (calls (CoinGeckoUniverseSelectionModelAlgorithm_Initialize self')) =
     filter is_SetCash (calls self') @ [CSetCash 100000] \<and>
   declares_dates_and_cash (calls (CoinGeckoUniverseSelectionModelAlgorithm_Initialize self'))"
  by (simp add: Initialize_calls Universe_Initialize_calls declares_dates_and_cash_def)

text \<open>
  Claim C4. The window \<open>Initialize\<close> creates has capacity 2 and is empty. After any
  sequence \<open>xs\<close> of \<open>Add\<close> operations its capacity is still 2 and it holds exactly
  the \<open>min 2 (length xs)\<close> most recent observations, newest first: after \<open>p\<close> and
  then \<open>d\<close> were added, index 0 is \<open>d\<close> and index 1 is \<open>p\<close>. A run of
  \<open>OnData\<close> from \<open>Initialize\<close> over any slices returns with the window holding
  the two most recent observations the slices carried. Consequently, when at least one
  observation was delivered and the next slice carries the reading \<open>latest\<close>,
  \<open>OnData\<close> compares \<open>latest\<close> against the observation delivered immediately
  before it: it calls \<open>SetHoldings\<close> with 1 if the market cap of that preceding
  observation is strictly below that of \<open>latest\<close> and with -1 otherwise, and the
  window then holds these two readings.
\<close>

theorem RollingWindow_two_most_recent:
  fixes xs :: "'m::linorder CoinGecko list"
    and slices :: "('sym, 'm) Slice list"
  shows
  "window (CoinGeckoAlgorithm_Initialize c1 c2 self0 :: ('sym, 'm) CoinGeckoAlgorithm)
     = \<lparr>Size = 2, items = []\<rparr> \<and>
   Size (foldl Add (window (CoinGeckoAlgorithm_Initialize c1 c2 self0)) xs) = 2 \<and>
   items (foldl Add (window (CoinGeckoAlgorithm_Initialize c1 c2 self0)) xs) = take 2 (rev xs) \<and>
   length (items (foldl Add (window (CoinGeckoAlgorithm_Initialize c1 c2 self0)) xs))
     = min 2 (length xs) \<and>
   Index (foldl Add (window (CoinGeckoAlgorithm_Initialize c1 c2 self0)) (xs @ [p, d])) 0 = Inr d \<and>
   Index (foldl Add (window (CoinGeckoAlgorithm_Initialize c1 c2 self0)) (xs @ [p, d])) 1 = Inr p \<and>
   (\<exists>self'. OnData_all (CoinGeckoAlgorithm_Initialize c1 c2 self0) slices = Inr self' \<and>
      Size (window self') = 2 \<and>
      items (window self') = take 2 (rev (observations (c2 ''CoinGecko'' ''BTC'') slices)) \<and>
      (observations (c2 ''CoinGecko'' ''BTC'') slices \<noteq> [] \<and>
       map_of (Get slice) (c2 ''CoinGecko'' ''BTC'') = Some latest \<longrightarrow>
         (\<exists>self''. OnData self' slice = Inr self'' \<and>
            calls self'' = calls self' @
              [CSetHoldings (c1 ''BTCUSD'')
                 (if MarketCap (last (observations (c2 ''CoinGecko'' ''BTC'') slices))
                       < MarketCap latest then 1 else - 1)] \<and>
            items (window self'') =
              [latest, last (observations (c2 ''CoinGecko'' ''BTC'') slices)])))"
proof -
  let ?init = "CoinGeckoAlgorithm_Initialize c1 c2 self0 :: ('sym, 'm) CoinGeckoAlgorithm"
  let ?w = "window ?init"
  let ?obs = "observations (c2 ''CoinGecko'' ''BTC'') slices"
  have w: "?w = \<lparr>Size = 2, items = []\<rparr>"
    by (rule Initialize_window)
  have it: "items (foldl Add ?w ys) = take 2 (rev ys)" for ys
    using foldl_Add_items [of ?w ys] by (simp add: w)
  have sz: "Size (foldl Add ?w ys) = 2" for ys
    by (simp add: foldl_Add_Size w)
  have i0: "Index (foldl Add ?w (xs @ [p, d])) 0 = Inr d"
    unfolding Index_def it by (simp add: numeral_2_eq_2)
  have i1: "Index (foldl Add ?w (xs @ [p, d])) 1 = Inr p"
    unfolding Index_def it by (simp add: numeral_2_eq_2)
  have len: "length (items (foldl Add ?w xs)) = min 2 (length xs)"
    by (simp add: it min.commute)
  have "Size ?w = 2" by (simp add: w)
  from OnData_all_run [OF this, of slices] obtain self' where
    run: "OnData_all ?init slices = Inr self'"
    and win: "window self' = foldl Add ?w (observations (custom_data_symbol ?init) slices)"
    by (elim exE conjE)
  from win have win': "window self' = foldl Add ?w ?obs"
    by (simp only: Initialize_symbols)
  have sz': "Size (window self') = 2"
    by (simp only: win' sz)
  have it': "items (window self') = take 2 (rev ?obs)"
    by (simp only: win' it)
  from OnData_all_symbols [OF run]
  have cus: "custom_data_symbol self' = c2 ''CoinGecko'' ''BTC''"
    and cry: "crypto_symbol self' = c1 ''BTCUSD''"
    by (simp_all only: Initialize_symbols)
  have cmp: "observations (c2 ''CoinGecko'' ''BTC'') slices \<noteq> [] \<and>
       map_of (Get slice) (c2 ''CoinGecko'' ''BTC'') = Some latest \<longrightarrow>
         (\<exists>self''. OnData self' slice = Inr self'' \<and>
            calls self'' = calls self' @
              [CSetHoldings (c1 ''BTCUSD'')
                 (if MarketCap (last (observations (c2 ''CoinGecko'' ''BTC'') slices))
                       < MarketCap latest then 1 else - 1)] \<and>
            items (window self'') =
              [latest, last (observations (c2 ''CoinGecko'' ''BTC'') slices)])"
  proof (intro impI, elim conjE)
    assume ne: "?obs \<noteq> []" and dat: "map_of (Get slice) (c2 ''CoinGecko'' ''BTC'') = Some latest"
    have "items (window self') = last ?obs # take 1 (rev (butlast ?obs))"
      unfolding it' rev_last_butlast [OF ne] by (simp add: numeral_2_eq_2)
    moreover have "map_of (Get slice) (custom_data_symbol self') = Some latest"
      using dat by (simp only: cus)
    ultimately have "OnData self' slice =
            Inr (SetHoldings (crypto_symbol self')
                   (if MarketCap (last ?obs) < MarketCap latest then 1 else - 1)
                   (self'\<lparr>window := \<lparr>Size = 2, items = [latest, last ?obs]\<rparr>\<rparr>))"
      using sz' by (intro OnData_compare)
    then show "\<exists>self''. OnData self' slice = Inr self'' \<and>
            calls self'' = calls self' @
              [CSetHoldings (c1 ''BTCUSD'') (if MarketCap (last ?obs) < MarketCap latest then 1 else - 1)] \<and>
            items (window self'') = [latest, last ?obs]"
      by (simp add: SetHoldings_def cry)
  qed
  have ex: "\<exists>self'. OnData_all ?init slices = Inr self' \<and>
      Size (window self') = 2 \<and>
      items (window self') = take 2 (rev ?obs) \<and>
      (?obs \<noteq> [] \<and> map_of (Get slice) (c2 ''CoinGecko'' ''BTC'') = Some latest \<longrightarrow>
         (\<exists>self''. OnData self' slice = Inr self'' \<and>
            calls self'' = calls self' @
              [CSetHoldings (c1 ''BTCUSD'')
                 (if MarketCap (last ?obs) < MarketCap latest then 1 else - 1)] \<and>
            items (window self'') = [latest, last ?obs]))"
    by (rule exI [of _ self']) (intro conjI run sz' it' cmp)
  show ?thesis
    by (intro conjI w it sz len i0 i1 ex)
qed

theorem RollingWindow_two_most_recent_witness:
  "\<exists>self' self''.
     OnData_all (CoinGeckoAlgorithm_Initialize ticker_symbol data_symbol \<lparr>calls = []\<rparr>)
       [\<lparr>Get = [(''BTC.CoinGecko'', \<lparr>Coin = ''BTC'', MarketCap = 9 :: int, Price = 1\<rparr>)]\<rparr>,
        \<lparr>Get = [(''BTC.CoinGecko'', \<lparr>Coin = ''BTC'', MarketCap = 5, Price = 1\<rparr>)]\<rparr>,
        \<lparr>Get = []\<rparr>] = Inr self' \<and>
     OnData self' \<lparr>Get = [(''BTC.CoinGecko'', \<lparr>Coin = ''BTC'', MarketCap = 7, Price = 1\<rparr>)]\<rparr>
       = Inr self'' \<and>
     calls self'' = calls self' @ [CSetHoldings ''BTCUSD'' 1] \<and>
     items (window self'') = [\<lparr>Coin = ''BTC'', MarketCap = 7, Price = 1\<rparr>,
                              \<lparr>Coin = ''BTC'', MarketCap = 5, Price = 1\<rparr>]"
proof -
  let ?slices = "[\<lparr>Get = [(''BTC.CoinGecko'', \<lparr>Coin = ''BTC'', MarketCap = 9 :: int, Price = 1\<rparr>)]\<rparr>,
        \<lparr>Get = [(''BTC.CoinGecko'', \<lparr>Coin = ''BTC'', MarketCap = 5, Price = 1\<rparr>)]\<rparr>,
        \<lparr>Get = []\<rparr>]"
  let ?slice = "\<lparr>Get = [(''BTC.CoinGecko'', \<lparr>Coin = ''BTC'', MarketCap = 7 :: int, Price = 1\<rparr>)]\<rparr>"
  let ?latest = "\<lparr>Coin = ''BTC'', MarketCap = 7 :: int, Price = 1\<rparr>"
  let ?obs = "observations (data_symbol ''CoinGecko'' ''BTC'') ?slices"
  have obs: "?obs = [\<lparr>Coin = ''BTC'', MarketCap = 9, Price = 1\<rparr>,
                     \<lparr>Coin = ''BTC'', MarketCap = 5, Price = 1\<rparr>]"
    by (simp add: observations_def data_symbol_def)
  have ne: "?obs \<noteq> []"
    by (simp only: obs) simp
  have dat: "map_of (Get ?slice) (data_symbol ''CoinGecko'' ''BTC'') = Some ?latest"
    by (simp add: data_symbol_def)
  from RollingWindow_two_most_recent
         [of ticker_symbol data_symbol "\<lparr>calls = []\<rparr>" "[]" ?latest ?latest ?slices ?slice ?latest]
  obtain self' where
    run: "OnData_all (CoinGeckoAlgorithm_Initialize ticker_symbol data_symbol \<lparr>calls = []\<rparr>) ?slices
            = Inr self'"
    and imp: "?obs \<noteq> [] \<and> map_of (Get ?slice) (data_symbol ''CoinGecko'' ''BTC'') = Some ?latest \<longrightarrow>
         (\<exists>self''. OnData self' ?slice = Inr self'' \<and>
            calls self'' = calls self' @
              [CSetHoldings (ticker_symbol ''BTCUSD'')
                 (if MarketCap (last ?obs) < MarketCap ?latest then 1 else - 1)] \<and>
            items (window self'') = [?latest, last ?obs])"
    by (elim conjE exE)
  from imp ne dat obtain self'' where
    a: "OnData self' ?slice = Inr self''"
    and b: "calls self'' = calls self' @
              [CSetHoldings (ticker_symbol ''BTCUSD'')
                 (if MarketCap (last ?obs) < MarketCap ?latest then 1 else - 1)]"
    and c: "items (window self'') = [?latest, last ?obs]"
    by (elim impE conjE exE) (rule conjI)
  have b': "calls self'' = calls self' @ [CSetHoldings ''BTCUSD'' 1]"
    using b by (simp add: obs ticker_symbol_def)
  have c': "items (window self'') = [?latest, \<lparr>Coin = ''BTC'', MarketCap = 5, Price = 1\<rparr>]"
    using c by (simp add: obs)
  show ?thesis
    by (rule exI [of _ self'], rule exI [of _ self'']) (intro conjI run a b' c')
qed

section \<open>The claims about UniverseSelection\<close>

text \<open>
  Claim C2. For every input list \<open>data\<close>, \<open>UniverseSelection\<close> returns the symbols
  of a selection that splits \<open>data\<close> into \<open>selected\<close> and \<open>rest\<close>, where
  \<open>selected\<close> has \<open>min 3 (length data)\<close> entries, is ordered by non-increasing
  \<open>MarketCap\<close>, and every entry left in \<open>rest\<close> has a \<open>MarketCap\<close> no greater than
  that of any selected entry; each symbol is \<open>CreateSymbol\<close> called on the selected
  entry with market \<open>GDAX\<close> and quote currency \<open>USD\<close>.
\<close>

theorem UniverseSelection_top_three:
  fixes data :: "'m::linorder CoinGecko list"
  shows "\<exists>selected rest.
     mset data = mset selected + mset rest \<and>
     length selected = min 3 (length data) \<and>
     sorted_wrt (\<lambda>x y. MarketCap y \<le> MarketCap x) selected \<and>
     (\<forall>x\<in>set selected. \<forall>y\<in>set rest. MarketCap y \<le> MarketCap x) \<and>
     fst (UniverseSelection str_num CreateSymbol self data) =
       map (\<lambda>x. CreateSymbol x GDAX ''USD'') selected"
proof -
  let ?ranked = "sorted_py MarketCap True data"
  let ?selected = "take 3 ?ranked" and ?rest = "drop 3 ?ranked"
  have split: "?selected @ ?rest = ?ranked" by simp
  have "mset ?selected + mset ?rest = mset ?ranked"
    by (simp only: mset_append [symmetric] split)
  then have a: "mset data = mset ?selected + mset ?rest"
    by (simp only: sorted_py_mset)
  have b: "length ?selected = min 3 (length data)"
    by (simp add: sorted_py_length min.commute)
  have "sorted_wrt (\<lambda>x y. MarketCap y \<le> MarketCap x) (?selected @ ?rest)"
    by (simp only: split sorted_py_descending)
  then have c: "sorted_wrt (\<lambda>x y. MarketCap y \<le> MarketCap x) ?selected"
    and d: "\<forall>x\<in>set ?selected. \<forall>y\<in>set ?rest. MarketCap y \<le> MarketCap x"
    unfolding sorted_wrt_append by blast+
  from a b c d UniverseSelection_result [of str_num CreateSymbol self data]
  show ?thesis by blast
qed

theorem UniverseSelection_top_three_witness:
  "\<exists>(selected :: int CoinGecko list) (rest :: int CoinGecko list).
     selected \<noteq> [] \<and> rest \<noteq> [] \<and>
     (\<forall>x\<in>set selected. \<forall>y\<in>set rest. MarketCap y \<le> MarketCap x) \<and>
     fst (UniverseSelection sign_text coin_symbol \<lparr>calls = []\<rparr>
            [\<lparr>Coin = ''A'', MarketCap = 5, Price = 1\<rparr>, \<lparr>Coin = ''B'', MarketCap = 9, Price = 1\<rparr>,
             \<lparr>Coin = ''C'', MarketCap = 5, Price = 1\<rparr>, \<lparr>Coin = ''D'', MarketCap = 7, Price = 1\<rparr>]) =
       map (\<lambda>x. coin_symbol x GDAX ''USD'') selected"
proof -
  let ?data = "[\<lparr>Coin = ''A'', MarketCap = 5 :: int, Price = 1\<rparr>,
                \<lparr>Coin = ''B'', MarketCap = 9, Price = 1\<rparr>,
                \<lparr>Coin = ''C'', MarketCap = 5, Price = 1\<rparr>,
                \<lparr>Coin = ''D'', MarketCap = 7, Price = 1\<rparr>]"
  from UniverseSelection_top_three [of ?data sign_text coin_symbol "\<lparr>calls = []\<rparr>"]
  obtain selected rest where
    m: "mset ?data = mset selected + mset rest"
    and l: "length selected = min 3 (length ?data)"
    and c: "\<forall>x\<in>set selected. \<forall>y\<in>set rest. MarketCap y \<le> MarketCap x"
    and r: "fst (UniverseSelection sign_text coin_symbol \<lparr>calls = []\<rparr> ?data) =
              map (\<lambda>x. coin_symbol x GDAX ''USD'') selected"
    by (elim exE conjE)
  from l have l3: "length selected = 3" by simp
  have "size (mset ?data) = size (mset selected + mset rest)"
    by (simp only: m)
  then have "length rest = 1" using l3 by simp
  with l3 have ne: "selected \<noteq> []" "rest \<noteq> []" by auto
  show ?thesis
    by (rule exI [of _ selected], rule exI [of _ rest]) (intro conjI ne c r)
qed

text \<open>
  Claim C10. Ties in \<open>MarketCap\<close> are broken by input position. The ranking
  \<open>UniverseSelection\<close> selects from is a descending permutation of \<open>data\<close> in which
  the entries of any one \<open>MarketCap\<close> value appear in their input order, so the selected
  entries of that value are the earliest ones of the input; and the ranking is the only
  list with these properties, which makes the result a function of the input list alone.
\<close>

theorem UniverseSelection_ties_by_input_position:
  fixes data :: "'m::linorder CoinGecko list"
  shows "fst (UniverseSelection str_num CreateSymbol self data) =
       map (\<lambda>x. CreateSymbol x GDAX ''USD'') (take 3 (sorted_py MarketCap True data)) \<and>
     mset (sorted_py MarketCap True data) = mset data \<and>
     sorted_wrt (\<lambda>x y. MarketCap y \<le> MarketCap x) (sorted_py MarketCap True data) \<and>
     (\<forall>k. filter (\<lambda>x. MarketCap x = k) (sorted_py MarketCap True data) =
           filter (\<lambda>x. MarketCap x = k) data) \<and>
     (\<forall>k. prefix (filter (\<lambda>x. MarketCap x = k) (take 3 (sorted_py MarketCap True data)))
                  (filter (\<lambda>x. MarketCap x = k) data)) \<and>
     (\<forall>ys. mset ys = mset data \<and> sorted_wrt (\<lambda>x y. MarketCap y \<le> MarketCap x) ys \<and>
           (\<forall>k. filter (\<lambda>x. MarketCap x = k) ys = filter (\<lambda>x. MarketCap x = k) data)
         \<longrightarrow> ys = sorted_py MarketCap True data)"
proof (intro conjI allI impI)
  show "fst (UniverseSelection str_num CreateSymbol self data) =
       map (\<lambda>x. CreateSymbol x GDAX ''USD'') (take 3 (sorted_py MarketCap True data))"
    by (rule UniverseSelection_result)
  show "mset (sorted_py MarketCap True data) = mset data"
    by (rule sorted_py_mset)
  show "sorted_wrt (\<lambda>x y. MarketCap y \<le> MarketCap x) (sorted_py MarketCap True data)"
    by (rule sorted_py_descending)
next
  fix k :: 'm
  show st: "filter (\<lambda>x. MarketCap x = k) (sorted_py MarketCap True data) =
           filter (\<lambda>x. MarketCap x = k) data"
    by (rule sorted_py_stable)
  have "prefix (filter (\<lambda>x. MarketCap x = k) (take 3 (sorted_py MarketCap True data)))
               (filter (\<lambda>x. MarketCap x = k) (sorted_py MarketCap True data))"
    by (intro filter_mono_prefix take_is_prefix)
  then show "prefix (filter (\<lambda>x. MarketCap x = k) (take 3 (sorted_py MarketCap True data)))
                  (filter (\<lambda>x. MarketCap x = k) data)"
    by (simp only: st)
next
  fix ys :: "'m CoinGecko list"
  assume "mset ys = mset data \<and> sorted_wrt (\<lambda>x y. MarketCap y \<le> MarketCap x) ys \<and>
           (\<forall>k. filter (\<lambda>x. MarketCap x = k) ys = filter (\<lambda>x. MarketCap x = k) data)"
  then show "ys = sorted_py MarketCap True data"
    using sorted_py_unique [of ys data MarketCap] by simp
qed

theorem UniverseSelection_ties_by_input_position_witness:
  "sorted_py MarketCap True
     [\<lparr>Coin = ''A'', MarketCap = 5 :: int, Price = 1\<rparr>, \<lparr>Coin = ''B'', MarketCap = 9, Price = 1\<rparr>,
      \<lparr>Coin = ''C'', MarketCap = 5, Price = 1\<rparr>, \<lparr>Coin = ''D'', MarketCap = 5, Price = 1\<rparr>,
      \<lparr>Coin = ''E'', MarketCap = 9, Price = 1\<rparr>]
   = [\<lparr>Coin = ''B'', MarketCap = 9, Price = 1\<rparr>, \<lparr>Coin = ''E'', MarketCap = 9, Price = 1\<rparr>,
      \<lparr>Coin = ''A'', MarketCap = 5, Price = 1\<rparr>, \<lparr>Coin = ''C'', MarketCap = 5, Price = 1\<rparr>,
      \<lparr>Coin = ''D'', MarketCap = 5, Price = 1\<rparr>] \<and>
   fst (UniverseSelection sign_text coin_symbol \<lparr>calls = []\<rparr>
     [\<lparr>Coin = ''A'', MarketCap = 5, Price = 1\<rparr>, \<lparr>Coin = ''B'', MarketCap = 9, Price = 1\<rparr>,
      \<lparr>Coin = ''C'', MarketCap = 5, Price = 1\<rparr>, \<lparr>Coin = ''D'', MarketCap = 5, Price = 1\<rparr>,
      \<lparr>Coin = ''E'', MarketCap = 9, Price = 1\<rparr>])
   = [''BUSD'', ''EUSD'', ''AUSD'']"
proof -
  let ?data = "[\<lparr>Coin = ''A'', MarketCap = 5 :: int, Price = 1\<rparr>,
                \<lparr>Coin = ''B'', MarketCap = 9, Price = 1\<rparr>,
                \<lparr>Coin = ''C'', MarketCap = 5, Price = 1\<rparr>,
                \<lparr>Coin = ''D'', MarketCap = 5, Price = 1\<rparr>,
                \<lparr>Coin = ''E'', MarketCap = 9, Price = 1\<rparr>]"
  let ?ys = "[\<lparr>Coin = ''B'', MarketCap = 9 :: int, Price = 1\<rparr>,
              \<lparr>Coin = ''E'', MarketCap = 9, Price = 1\<rparr>,
              \<lparr>Coin = ''A'', MarketCap = 5, Price = 1\<rparr>,
              \<lparr>Coin = ''C'', MarketCap = 5, Price = 1\<rparr>,
              \<lparr>Coin = ''D'', MarketCap = 5, Price = 1\<rparr>]"
  note t = UniverseSelection_ties_by_input_position [of sign_text coin_symbol "\<lparr>calls = []\<rparr>" ?data]
  have h1: "mset ?ys = mset ?data" by simp
  have h2: "sorted_wrt (\<lambda>x y. MarketCap y \<le> MarketCap x) ?ys" by simp
  have h3: "\<forall>k. filter (\<lambda>x. MarketCap x = k) ?ys = filter (\<lambda>x. MarketCap x = k) ?data" by simp
  from t h1 h2 h3 have eq: "?ys = sorted_py MarketCap True ?data" by blast
  from t have "fst (UniverseSelection sign_text coin_symbol \<lparr>calls = []\<rparr> ?data) =
       map (\<lambda>x. coin_symbol x GDAX ''USD'') (take 3 (sorted_py MarketCap True ?data))"
    by blast
  then have "fst (UniverseSelection sign_text coin_symbol \<lparr>calls = []\<rparr> ?data) =
       map (\<lambda>x. coin_symbol x GDAX ''USD'') (take 3 ?ys)"
    by (simp only: eq)
  then have "fst (UniverseSelection sign_text coin_symbol \<lparr>calls = []\<rparr> ?data) =
       [''BUSD'', ''EUSD'', ''AUSD'']"
    by (simp add: coin_symbol_def)
  with eq show ?thesis by simp
qed

text \<open>
  Claim C7. \<open>MarketCap\<close> is used as a ranking key only. If the \<open>MarketCap\<close> values
  of \<open>data\<close> are replaced, entry by entry, by values \<open>caps\<close> that induce the same
  strict ordering of the entries, \<open>UniverseSelection\<close> returns the same symbol list.
  \<open>CreateSymbol\<close> is the data type's method and not part of the sources: it is taken
  not to read \<open>MarketCap\<close>.
\<close>

theorem UniverseSelection_ranking_key_only:
  fixes data :: "'m::linorder CoinGecko list" and caps :: "'m list"
  assumes len: "length caps = length data"
    and ord: "\<forall>i<length data. \<forall>j<length data.
                (MarketCap (data ! i) < MarketCap (data ! j)) = (caps ! i < caps ! j)"
    and sym: "\<forall>x v. CreateSymbol (x\<lparr>MarketCap := v\<rparr>) GDAX ''USD'' = CreateSymbol x GDAX ''USD''"
  shows "fst (UniverseSelection str_num CreateSymbol self
                (map2 (\<lambda>x v. x\<lparr>MarketCap := v\<rparr>) data caps)) =
         fst (UniverseSelection str_num CreateSymbol self' data)"
proof -
  let ?data' = "map2 (\<lambda>x v. x\<lparr>MarketCap := v\<rparr>) data caps"
  let ?ps = "zip data ?data'"
  let ?S = "sorted_py (\<lambda>p. MarketCap (fst p)) True ?ps"
  have len': "length ?data' = length data" using len by simp
  have fst_ps: "map fst ?ps = data" using len' by (simp only: map_fst_zip)
  have snd_ps: "map snd ?ps = ?data'" using len' by (simp only: map_snd_zip)
  have el: "\<exists>i<length data. p = (data ! i, (data ! i)\<lparr>MarketCap := caps ! i\<rparr>)"
    if "p \<in> set ?ps" for p
    using that len by (auto simp: set_zip)
  have same: "CreateSymbol (snd p) GDAX ''USD'' = CreateSymbol (fst p) GDAX ''USD''"
    if "p \<in> set ?ps" for p
    using el [OF that] sym by auto
  have le: "(MarketCap (fst p) \<le> MarketCap (fst q)) = (MarketCap (snd p) \<le> MarketCap (snd q))"
    if "p \<in> set ?ps" "q \<in> set ?ps" for p q
  proof -
    from el [OF that(1)] obtain i where i: "i < length data"
      "p = (data ! i, (data ! i)\<lparr>MarketCap := caps ! i\<rparr>)" by blast
    from el [OF that(2)] obtain j where j: "j < length data"
      "q = (data ! j, (data ! j)\<lparr>MarketCap := caps ! j\<rparr>)" by blast
    from ord i(1) j(1)
    have "(MarketCap (data ! j) < MarketCap (data ! i)) = (caps ! j < caps ! i)" by blast
    then show ?thesis using i(2) j(2) by (simp add: not_less [symmetric])
  qed
  have "?S = sorted_py (\<lambda>p. MarketCap (snd p)) True ?ps"
    by (rule sorted_py_cong_order) (use le in blast)
  then have r': "sorted_py MarketCap True ?data' = map snd ?S"
    using map_sorted_py [of snd MarketCap True ?ps] by (simp only: snd_ps)
  have r: "sorted_py MarketCap True data = map fst ?S"
    using map_sorted_py [of fst MarketCap True ?ps] by (simp only: fst_ps)
  have sub: "set (take 3 ?S) \<subseteq> set ?ps"
    using set_take_subset [of 3 ?S] by (simp only: sorted_py_set)
  have "map (\<lambda>x. CreateSymbol x GDAX ''USD'') (take 3 (map snd ?S))
          = map (\<lambda>p. CreateSymbol (snd p) GDAX ''USD'') (take 3 ?S)"
    by (simp add: take_map)
  also have "\<dots> = map (\<lambda>p. CreateSymbol (fst p) GDAX ''USD'') (take 3 ?S)"
    by (rule map_cong [OF refl]) (use sub same in blast)
  also have "\<dots> = map (\<lambda>x. CreateSymbol x GDAX ''USD'') (take 3 (map fst ?S))"
    by (simp add: take_map)
  finally show ?thesis
    by (simp only: UniverseSelection_result r r')
qed

theorem UniverseSelection_ranking_key_only_witness:
  "fst (UniverseSelection sign_text coin_symbol \<lparr>calls = []\<rparr>
          [\<lparr>Coin = ''A'', MarketCap = 10, Price = 1\<rparr>, \<lparr>Coin = ''B'', MarketCap = 30, Price = 1\<rparr>,
           \<lparr>Coin = ''C'', MarketCap = 10, Price = 1\<rparr>, \<lparr>Coin = ''D'', MarketCap = 20, Price = 1\<rparr>]) =
   fst (UniverseSelection sign_text coin_symbol \<lparr>calls = []\<rparr>
          [\<lparr>Coin = ''A'', MarketCap = 5, Price = 1\<rparr>, \<lparr>Coin = ''B'', MarketCap = 9, Price = 1\<rparr>,
           \<lparr>Coin = ''C'', MarketCap = 5, Price = 1\<rparr>, \<lparr>Coin = ''D'', MarketCap = 7, Price = 1\<rparr>])"
proof -
  let ?data = "[\<lparr>Coin = ''A'', MarketCap = 5 :: int, Price = 1\<rparr>,
                \<lparr>Coin = ''B'', MarketCap = 9, Price = 1\<rparr>,
                \<lparr>Coin = ''C'', MarketCap = 5, Price = 1\<rparr>,
                \<lparr>Coin = ''D'', MarketCap = 7, Price = 1\<rparr>]"
  let ?caps = "[10, 30, 10, 20 :: int]"
  have h1: "length ?caps = length ?data" by simp
  have h2: "\<forall>i<length ?data. \<forall>j<length ?data.
              (MarketCap (?data ! i) < MarketCap (?data ! j)) = (?caps ! i < ?caps ! j)"
    by (simp add: All_less_Suc)
  have h3: "\<forall>(x :: int CoinGecko) v.
              coin_symbol (x\<lparr>MarketCap := v\<rparr>) GDAX ''USD'' = coin_symbol x GDAX ''USD''"
    by (simp add: coin_symbol_def)
  from UniverseSelection_ranking_key_only
         [of ?caps ?data coin_symbol sign_text "\<lparr>calls = []\<rparr>" "\<lparr>calls = []\<rparr>", OF h1 h2 h3]
  show ?thesis by simp
qed

end
